theory Spec2Isabelle
  imports Main
begin

section \<open>The systemd-boot boot loader back end (pyanaconda/modules/storage/bootloader/systemd.py)\<close>

text \<open>
  The class \<open>SYSTEMD\<close> is embedded as functions over an explicit state: the attributes of
  the boot loader object that the methods read or assign (a record), and the outside
  world the methods act on (the files they rename and write, the environment variables
  of the process, and a trace of every call that leaves the process, in call order).

  What the model covers: every statement of \<open>write_device_map\<close>, \<open>write_config_console\<close>,
  \<open>write_config\<close>, \<open>install_targets\<close>, \<open>installbootmgr\<close> and \<open>write\<close>, except the
  \<open>log.info\<close> calls, which have no effect on the state. Every \<open>raise\<close> written in the source
  is a branch returning \<open>Inl\<close>. Calls into the Python library and into blivet
  (\<open>open\<close>, \<open>write\<close>, \<open>close\<close>, \<open>os.rename\<close>, \<open>os.sync\<close>, \<open>format.sync\<close>) are taken to
  return normally; what an external program does to the files is outside the model, only
  its exit status is an input.
\<close>

subsection \<open>Data\<close>

text \<open>A blivet device as the methods use it: identity, \<open>is_disk\<close> and \<open>disks\<close>.\<close>

datatype device = Device (device_name: string) (is_disk: bool) (device_disks: "device list")

text \<open>\<open>conf.target\<close>: the two roots the methods read.\<close>

record conf =
  system_root :: string
  physical_root :: string

text \<open>
  The attributes of \<open>self\<close>. \<open>boot_args\<close> is the list \<open>self.boot_args._arguments\<close>.
  \<open>device_map_file\<close> is read by \<open>write_device_map\<close> but its definition is commented out in
  this class, so its value is an input here.
\<close>

record bootloader =
  disks :: "device list"
  stage1_device :: device
  stage2_device :: device
  boot_args :: "string list"
  console :: string
  console_options :: string
  device_map_file :: string

text \<open>One invocation of an external program: what is run, where, and with which environment.\<close>

record exec_call =
  command :: string
  argv :: "string list"
  root :: string
  child_env :: "(string \<times> string) list"

datatype event =
    Rename string string
  | Open string
  | Write string string
  | Close string
  | FormatSync device string
  | OsSync
  | Exec exec_call
  | CallInstall

record world =
  files :: "string \<rightharpoonup> string"
  environ :: "(string \<times> string) list"
  trace :: "event list"

text \<open>
  \<open>BootLoaderError\<close> is the only exception the file raises. \<open>OtherError\<close> stands for any
  other exception that reaches \<open>write\<close> from \<open>self.install()\<close>.
\<close>

datatype error = BootLoaderError string | OtherError string

text \<open>
  The inputs that the code does not determine: the exit status of each external program,
  and whether \<open>self.install()\<close> raises. \<open>write\<close> calls \<open>self.install()\<close>, and the class
  defines no method of that name (its own installer method is \<open>installbootmgr\<close>), so the
  call resolves outside this file; the model records the call and takes its outcome
  from here.
\<close>

record env =
  exec_rc :: "exec_call \<Rightarrow> int"
  install_raises :: "error option"

type_synonym state = "bootloader \<times> world"
type_synonym step = "state \<Rightarrow> (error + unit) \<times> state"

subsection \<open>Sequencing and \<open>try ... finally\<close>\<close>

text \<open>A statement list: the first exception ends it.\<close>

fun do_all :: "step list \<Rightarrow> step" where
  "do_all [] st = (Inr (), st)"
| "do_all (f # fs) st =
     (case f st of
        (Inl e, st') \<Rightarrow> (Inl e, st')
      | (Inr u, st') \<Rightarrow> do_all fs st')"

text \<open>
  Python's \<open>try: body finally: fin\<close>: \<open>fin\<close> runs however \<open>body\<close> ended; an exception
  of \<open>fin\<close> replaces the outcome of \<open>body\<close>, otherwise the outcome of \<open>body\<close> stands.
\<close>

definition try_finally :: "step \<Rightarrow> step \<Rightarrow> step" where
  "try_finally body fin st =
     (case body st of (r1, st1) \<Rightarrow>
        (case fin st1 of
           (Inl e, st2) \<Rightarrow> (Inl e, st2)
         | (Inr u, st2) \<Rightarrow> (r1, st2)))"

subsection \<open>Library calls\<close>

definition emit :: "event \<Rightarrow> world \<Rightarrow> world" where
  "emit ev w = w\<lparr>trace := trace w @ [ev]\<rparr>"

text \<open>\<open>open(path, "w")\<close> creates or truncates the file.\<close>

definition open_w :: "string \<Rightarrow> world \<Rightarrow> world" where
  "open_w path w = emit (Open path) (w\<lparr>files := (files w)(path \<mapsto> [])\<rparr>)"

text \<open>\<open>f.write(data)\<close> on a file opened by \<open>open_w\<close>: the data goes after what is there.\<close>

definition file_write :: "string \<Rightarrow> string \<Rightarrow> world \<Rightarrow> world" where
  "file_write path data w =
     emit (Write path data)
       (w\<lparr>files := (files w)(path \<mapsto> (case files w path of None \<Rightarrow> data | Some old \<Rightarrow> old @ data))\<rparr>)"

definition file_close :: "string \<Rightarrow> world \<Rightarrow> world" where
  "file_close path w = emit (Close path) w"

text \<open>\<open>os.access(path, os.R_OK)\<close>: the files of the model are the readable ones.\<close>

definition os_access_R_OK :: "world \<Rightarrow> string \<Rightarrow> bool" where
  "os_access_R_OK w path = (files w path \<noteq> None)"

text \<open>\<open>os.rename(src, dst)\<close>: \<open>dst\<close> gets the content, replacing what it had; \<open>src\<close> is gone.\<close>

definition os_rename :: "string \<Rightarrow> string \<Rightarrow> world \<Rightarrow> world" where
  "os_rename src dst w =
     emit (Rename src dst) (w\<lparr>files := ((files w)(dst := files w src))(src := None)\<rparr>)"

definition os_sync :: step where
  "os_sync st = (case st of (s, w) \<Rightarrow> (Inr (), (s, emit OsSync w)))"

text \<open>\<open>self.stage2_device.format.sync(root=conf.target.physical_root)\<close>\<close>

definition stage2_format_sync :: "conf \<Rightarrow> step" where
  "stage2_format_sync c st =
     (case st of (s, w) \<Rightarrow>
        (Inr (), (s, emit (FormatSync (stage2_device s) (physical_root c)) w)))"

text \<open>\<open>sep.join(xs)\<close>\<close>

fun join_str :: "string \<Rightarrow> string list \<Rightarrow> string" where
  "join_str sep [] = []"
| "join_str sep [x] = x"
| "join_str sep (x # y # ys) = x @ sep @ join_str sep (y # ys)"

text \<open>
  Modelled from the spec: \<open>util.execWithRedirect\<close> (pyanaconda.core.util, not among the
  sources) is the capability "run external program, redirect output, optionally scrub
  specific environment variables, return exit status". The child's environment is the
  process environment without the variables named in \<open>env_prune\<close>.
\<close>

definition execWithRedirect ::
  "env \<Rightarrow> string \<Rightarrow> string list \<Rightarrow> string \<Rightarrow> string list \<Rightarrow> world \<Rightarrow> int \<times> world" where
  "execWithRedirect en cmd args rt env_prune w =
     (let call = \<lparr>command = cmd, argv = args, root = rt,
                  child_env = filter (\<lambda>kv. fst kv \<notin> set env_prune) (environ w)\<rparr>
      in (exec_rc en call, emit (Exec call) w))"

text \<open>
  Modelled from the spec: \<open>Arguments.add\<close> (the class of \<open>self.boot_args\<close>, in base.py, not
  among the sources) "appends token if not already present".
\<close>

definition boot_args_add :: "string \<Rightarrow> string list \<Rightarrow> string list" where
  "boot_args_add key args = (if key \<in> set args then args else args @ [key])"

subsection \<open>Configuration\<close>

definition write_config_console :: "bootloader \<Rightarrow> bootloader" where
  "write_config_console s =
     (if console s = [] then s
      else
        let console_arg = ''console='' @ console s;
            console_arg = (if console_options s \<noteq> []
                           then console_arg @ '','' @ console_options s
                           else console_arg)
        in s\<lparr>boot_args := boot_args_add console_arg (boot_args s)\<rparr>)"

definition write_config :: "conf \<Rightarrow> env \<Rightarrow> step" where
  "write_config c en st =
     (case st of (s0, w0) \<Rightarrow>
        let s = write_config_console s0;
            config_path = system_root c @ ''/boot/efi/loader/loader.conf'';
            w = open_w config_path w0;
            w = file_write config_path ''timeout 3\<newline>'' w;
            w = file_write config_path ''#console-mode keep\<newline>'' w;
            w = file_close config_path w;
            config_path = system_root c @ ''/etc/kernel/cmdline'';
            w = open_w config_path w;
            args = join_str '' '' (boot_args s);
            args = args @ '' root=/dev/mapper/fedora_fedora-root'';
            w = file_write config_path args w;
            w = file_close config_path w;
            (rc, w) = execWithRedirect en ''/usr/sbin/updateloaderentries.sh'' ['' '']
                        (system_root c) [] w
        in if rc \<noteq> 0
           then (Inl (BootLoaderError ''failed to write boot loader configuration''), (s, w))
           else (Inr (), (s, w)))"

subsection \<open>The device map\<close>

text \<open>\<open>path.split(sep)\<close>\<close>

fun split_sep :: "char \<Rightarrow> string \<Rightarrow> string list" where
  "split_sep sep [] = [[]]"
| "split_sep sep (x # xs) =
     (if x = sep then [] # split_sep sep xs
      else (case split_sep sep xs of
              [] \<Rightarrow> [[x]]
            | y # ys \<Rightarrow> (x # y) # ys))"

text \<open>The loop of \<open>posixpath.normpath\<close> over the components; \<open>new_comps\<close> grows at its end.\<close>

fun norm_comps :: "nat \<Rightarrow> string list \<Rightarrow> string list \<Rightarrow> string list" where
  "norm_comps initial_slashes [] new_comps = new_comps"
| "norm_comps initial_slashes (part # comps) new_comps =
     (if part = [] \<or> part = ''.'' then norm_comps initial_slashes comps new_comps
      else if part \<noteq> ''..'' \<or> (initial_slashes = 0 \<and> new_comps = [])
                \<or> (new_comps \<noteq> [] \<and> last new_comps = ''..'')
      then norm_comps initial_slashes comps (new_comps @ [part])
      else if new_comps \<noteq> [] then norm_comps initial_slashes comps (butlast new_comps)
      else norm_comps initial_slashes comps new_comps)"

text \<open>\<open>os.path.normpath\<close> (POSIX): one or two leading slashes are kept, three or more are one.\<close>

definition normpath :: "string \<Rightarrow> string" where
  "normpath path =
     (if path = [] then ''.''
      else
        let initial_slashes =
              (if take 1 path = ''/''
               then (if take 2 path = ''//'' \<and> take 3 path \<noteq> ''///'' then 2 else 1)
               else (0::nat));
            comps = norm_comps initial_slashes (split_sep (CHR ''/'') path) [];
            p = join_str ''/'' comps;
            p = replicate initial_slashes (CHR ''/'') @ p
        in if p = [] then ''.'' else p)"

text \<open>
  The list the method builds in its local \<open>devices\<close> before filtering. \<open>devices = self.disks\<close>
  binds the same list object, so the appends also change \<open>self.disks\<close>.
\<close>

definition device_map_candidates :: "bootloader \<Rightarrow> device list" where
  "device_map_candidates s =
     (let devices = disks s;
          devices = (if stage1_device s \<notin> set devices then devices @ [stage1_device s]
                     else devices)
      in fold (\<lambda>disk devices. if disk \<notin> set devices then devices @ [disk] else devices)
           (device_disks (stage2_device s)) devices)"

text \<open>
  Docstring: "Write out a device map containing all supported devices." The method ends
  after the test on the filtered list: both branches return \<open>None\<close>.
\<close>

definition write_device_map :: "conf \<Rightarrow> step" where
  "write_device_map c st =
     (case st of (s, w) \<Rightarrow>
        let map_path = normpath (system_root c @ device_map_file s);
            w = (if os_access_R_OK w map_path
                 then os_rename map_path (map_path @ ''.anacbak'') w
                 else w);
            devices = device_map_candidates s;
            s = s\<lparr>disks := devices\<rparr>;
            devices = filter is_disk devices
        in if length devices = 0 then (Inr (), (s, w)) else (Inr (), (s, w)))"

subsection \<open>Installation\<close>

text \<open>
  \<open>install_targets\<close>: the local \<open>stage2_raid = False\<close> is assigned and never read; the one
  \<open>append\<close> is the only statement that changes \<open>targets\<close>.
\<close>

definition install_targets :: "bootloader \<Rightarrow> (device \<times> device) list" where
  "install_targets s =
     (let targets = [];
          stage2_raid = False;
          targets = targets @ [(stage1_device s, stage2_device s)]
      in targets)"

text \<open>\<open>installbootmgr\<close>: the parameter \<open>args\<close> is defaulted to \<open>[]\<close> and not used.\<close>

definition installbootmgr :: "conf \<Rightarrow> env \<Rightarrow> step" where
  "installbootmgr c en st =
     (case st of (s, w) \<Rightarrow>
        let (rc, w) = execWithRedirect en ''bootctl'' [''install'', ''--esp-path=/boot/efi'']
                        (system_root c) [''MALLOC_PERTURB_''] w
        in if rc \<noteq> 0
           then (Inl (BootLoaderError ''boot loader install failed''), (s, w))
           else (Inr (), (s, w)))"

text \<open>
  The call \<open>self.install()\<close> in \<open>write\<close>: recorded in the trace, raising what the
  environment says (see \<open>env\<close>).
\<close>

definition install :: "env \<Rightarrow> step" where
  "install en st =
     (case st of (s, w) \<Rightarrow>
        (case install_raises en of None \<Rightarrow> Inr () | Some e \<Rightarrow> Inl e, (s, emit CallInstall w)))"

text \<open>
  \<open>write\<close> (named \<open>write_bootloader\<close> here, \<open>write\<close> being a keyword of Isabelle).
\<close>

definition write_bootloader :: "conf \<Rightarrow> env \<Rightarrow> step" where
  "write_bootloader c en =
     try_finally
       (do_all [write_device_map c,
                stage2_format_sync c,
                os_sync,
                install en,
                os_sync,
                stage2_format_sync c])
       (do_all [write_config c en,
                os_sync,
                stage2_format_sync c])"

subsection \<open>Vocabulary of the statements\<close>

text \<open>The invocation of the merge script as \<open>write_config\<close> makes it from a world \<open>w\<close>.\<close>

definition merge_script_call :: "conf \<Rightarrow> world \<Rightarrow> exec_call" where
  "merge_script_call c w =
     \<lparr>command = ''/usr/sbin/updateloaderentries.sh'', argv = ['' ''], root = system_root c,
      child_env = environ w\<rparr>"

text \<open>The invocation of \<open>bootctl\<close> as \<open>installbootmgr\<close> makes it from a world \<open>w\<close>.\<close>

definition bootctl_call :: "conf \<Rightarrow> world \<Rightarrow> exec_call" where
  "bootctl_call c w =
     \<lparr>command = ''bootctl'', argv = [''install'', ''--esp-path=/boot/efi''],
      root = system_root c,
      child_env = filter (\<lambda>kv. fst kv \<noteq> ''MALLOC_PERTURB_'') (environ w)\<rparr>"

text \<open>The text \<open>write_config\<close> puts into the command-line file for a boot loader \<open>s\<close>.\<close>

definition cmdline_text :: "bootloader \<Rightarrow> string" where
  "cmdline_text s =
     join_str '' '' (boot_args (write_config_console s))
       @ '' root=/dev/mapper/fedora_fedora-root''"

text \<open>The calls \<open>write_config\<close> makes, in order.\<close>

definition config_events :: "conf \<Rightarrow> bootloader \<Rightarrow> world \<Rightarrow> event list" where
  "config_events c s w =
     [Open (system_root c @ ''/boot/efi/loader/loader.conf''),
      Write (system_root c @ ''/boot/efi/loader/loader.conf'') ''timeout 3\<newline>'',
      Write (system_root c @ ''/boot/efi/loader/loader.conf'') ''#console-mode keep\<newline>'',
      Close (system_root c @ ''/boot/efi/loader/loader.conf''),
      Open (system_root c @ ''/etc/kernel/cmdline''),
      Write (system_root c @ ''/etc/kernel/cmdline'') (cmdline_text s),
      Close (system_root c @ ''/etc/kernel/cmdline''),
      Exec (merge_script_call c w)]"

text \<open>The two flushes, in the order \<open>write\<close> issues them after a phase.\<close>

definition sync_events :: "conf \<Rightarrow> bootloader \<Rightarrow> event list" where
  "sync_events c s = [OsSync, FormatSync (stage2_device s) (physical_root c)]"

text \<open>The rename \<open>write_device_map\<close> makes when the map file is there.\<close>

definition device_map_events :: "conf \<Rightarrow> bootloader \<Rightarrow> world \<Rightarrow> event list" where
  "device_map_events c s w =
     (let map_path = normpath (system_root c @ device_map_file s)
      in if files w map_path \<noteq> None then [Rename map_path (map_path @ ''.anacbak'')] else [])"

fun is_flush :: "event \<Rightarrow> bool" where
  "is_flush OsSync = True"
| "is_flush (FormatSync d r) = True"
| "is_flush ev = False"

text \<open>Some flush is issued after the first occurrence of \<open>ev\<close> in a trace.\<close>

definition flushed_after :: "event \<Rightarrow> event list \<Rightarrow> bool" where
  "flushed_after ev t = list_ex is_flush (dropWhile (\<lambda>e. e \<noteq> ev) t)"

text \<open>The trace ends with the global flush followed by the flush of device \<open>d\<close> under \<open>r\<close>.\<close>

definition ends_with_sync :: "device \<Rightarrow> string \<Rightarrow> event list \<Rightarrow> bool" where
  "ends_with_sync d r t =
     (2 \<le> length t \<and> drop (length t - 2) t = [OsSync, FormatSync d r])"

subsection \<open>Example inputs\<close>

text \<open>
  A target mounted at \<open>/mnt/sysroot\<close>; two disks and an array over both; a boot loader
  installed onto the first disk with its payload on the array, which knows of the first
  disk only.
\<close>

definition example_conf :: conf where
  "example_conf = \<lparr>system_root = ''/mnt/sysroot'', physical_root = ''/mnt/sysimage''\<rparr>"

definition sda :: device where
  "sda = Device ''sda'' True []"

definition sdb :: device where
  "sdb = Device ''sdb'' True []"

definition md0 :: device where
  "md0 = Device ''md0'' False [sda, sdb]"

definition example_loader :: bootloader where
  "example_loader =
     \<lparr>disks = [sda], stage1_device = sda, stage2_device = md0, boot_args = [],
      console = [], console_options = [],
      device_map_file = ''/boot/efi/loader//device.map''\<rparr>"

text \<open>The same boot loader with a serial console and two arguments collected.\<close>

definition serial_loader :: bootloader where
  "serial_loader =
     example_loader\<lparr>boot_args := [''ro'', ''quiet''], console := ''ttyS0'',
                     console_options := ''115200''\<rparr>"

text \<open>A world that has a device map and a loader descriptor from an earlier run.\<close>

definition example_world :: world where
  "example_world =
     \<lparr>files = [''/mnt/sysroot/boot/efi/loader/device.map'' \<mapsto> ''(hd0) /dev/sda'',
               ''/mnt/sysroot/boot/efi/loader/loader.conf'' \<mapsto> ''timeout 10''],
      environ = [(''MALLOC_PERTURB_'', ''204''), (''LANG'', ''C'')],
      trace = []\<rparr>"

definition install_error :: error where
  "install_error = BootLoaderError ''boot loader install failed''"

definition env_all_ok :: env where
  "env_all_ok = \<lparr>exec_rc = (\<lambda>call. 0), install_raises = None\<rparr>"

definition env_script_fails :: env where
  "env_script_fails =
     \<lparr>exec_rc = (\<lambda>call. if command call = ''/usr/sbin/updateloaderentries.sh'' then 1 else 0),
      install_raises = None\<rparr>"

definition env_install_fails :: env where
  "env_install_fails = \<lparr>exec_rc = (\<lambda>call. 0), install_raises = Some install_error\<rparr>"

definition env_both_fail :: env where
  "env_both_fail = \<lparr>exec_rc = (\<lambda>call. 1), install_raises = Some install_error\<rparr>"

definition env_bootctl_fails :: env where
  "env_bootctl_fails = \<lparr>exec_rc = (\<lambda>call. if command call = ''bootctl'' then 1 else 0),
                         install_raises = None\<rparr>"

section \<open>Effects of the methods\<close>

text \<open>What each method returns and what it leaves in the state, component by component.\<close>

lemma emit_simps [simp]:
  "files (emit ev w) = files w"
  "environ (emit ev w) = environ w"
  "trace (emit ev w) = trace w @ [ev]"
  by (simp_all add: emit_def)

lemma open_w_simps [simp]:
  "files (open_w p w) = (files w)(p \<mapsto> [])"
  "environ (open_w p w) = environ w"
  "trace (open_w p w) = trace w @ [Open p]"
  by (simp_all add: open_w_def)

lemma file_write_simps [simp]:
  "files (file_write p d w) = (files w)(p \<mapsto> (case files w p of None \<Rightarrow> d | Some old \<Rightarrow> old @ d))"
  "environ (file_write p d w) = environ w"
  "trace (file_write p d w) = trace w @ [Write p d]"
  by (simp_all add: file_write_def)

lemma file_close_simps [simp]:
  "files (file_close p w) = files w"
  "environ (file_close p w) = environ w"
  "trace (file_close p w) = trace w @ [Close p]"
  by (simp_all add: file_close_def)

lemma os_rename_simps [simp]:
  "files (os_rename a b w) = ((files w)(b := files w a))(a := None)"
  "environ (os_rename a b w) = environ w"
  "trace (os_rename a b w) = trace w @ [Rename a b]"
  by (simp_all add: os_rename_def)

lemma execWithRedirect_simps [simp]:
  "fst (execWithRedirect en cmd args rt pr w) =
     exec_rc en \<lparr>command = cmd, argv = args, root = rt,
                  child_env = filter (\<lambda>kv. fst kv \<notin> set pr) (environ w)\<rparr>"
  "files (snd (execWithRedirect en cmd args rt pr w)) = files w"
  "environ (snd (execWithRedirect en cmd args rt pr w)) = environ w"
  "trace (snd (execWithRedirect en cmd args rt pr w)) =
     trace w @ [Exec \<lparr>command = cmd, argv = args, root = rt,
                  child_env = filter (\<lambda>kv. fst kv \<notin> set pr) (environ w)\<rparr>]"
  by (simp_all add: execWithRedirect_def Let_def)

lemma write_config_result:
  "fst (write_config c en (s, w)) =
     (if exec_rc en (merge_script_call c w) \<noteq> 0
      then Inl (BootLoaderError ''failed to write boot loader configuration'')
      else Inr ())"
  by (simp add: write_config_def Let_def split_beta merge_script_call_def)

lemma write_config_bootloader:
  "fst (snd (write_config c en (s, w))) = write_config_console s"
  by (simp add: write_config_def Let_def split_beta)

lemma write_config_environ:
  "environ (snd (snd (write_config c en (s, w)))) = environ w"
  by (simp add: write_config_def Let_def split_beta)

lemma write_config_trace:
  "trace (snd (snd (write_config c en (s, w)))) = trace w @ config_events c s w"
  by (simp add: write_config_def Let_def split_beta config_events_def cmdline_text_def
      merge_script_call_def)

lemma write_config_files:
  "files (snd (snd (write_config c en (s, w)))) =
     (files w)(system_root c @ ''/boot/efi/loader/loader.conf'' \<mapsto> ''timeout 3\<newline>#console-mode keep\<newline>'',
               system_root c @ ''/etc/kernel/cmdline'' \<mapsto> cmdline_text s)"
  by (simp add: write_config_def Let_def split_beta cmdline_text_def)

lemma write_device_map_result: "fst (write_device_map c (s, w)) = Inr ()"
  by (simp add: write_device_map_def Let_def)

lemma write_device_map_bootloader:
  "fst (snd (write_device_map c (s, w))) = s\<lparr>disks := device_map_candidates s\<rparr>"
  by (simp add: write_device_map_def Let_def)

lemma write_device_map_environ:
  "environ (snd (snd (write_device_map c (s, w)))) = environ w"
  by (simp add: write_device_map_def Let_def)

lemma write_device_map_trace:
  "trace (snd (snd (write_device_map c (s, w)))) = trace w @ device_map_events c s w"
  by (simp add: write_device_map_def Let_def device_map_events_def os_access_R_OK_def)

lemma write_device_map_files:
  "files (snd (snd (write_device_map c (s, w)))) =
     (let map_path = normpath (system_root c @ device_map_file s)
      in if files w map_path \<noteq> None
         then ((files w)(map_path @ ''.anacbak'' := files w map_path))(map_path := None)
         else files w)"
  by (simp add: write_device_map_def Let_def os_access_R_OK_def)


lemma write_config_console_disks [simp]:
  "boot_args (write_config_console (s\<lparr>disks := d\<rparr>)) = boot_args (write_config_console s)"
  "stage2_device (write_config_console s) = stage2_device s"
  by (simp_all add: write_config_console_def Let_def)

lemma cmdline_text_disks [simp]: "cmdline_text (s\<lparr>disks := d\<rparr>) = cmdline_text s"
  by (simp add: cmdline_text_def)

lemma config_events_disks [simp]: "config_events c (s\<lparr>disks := d\<rparr>) w = config_events c s w"
  by (simp add: config_events_def)

lemma merge_script_call_environ:
  "environ w' = environ w \<Longrightarrow> merge_script_call c w' = merge_script_call c w"
  by (simp add: merge_script_call_def)

lemma config_events_environ:
  "environ w' = environ w \<Longrightarrow> config_events c s w' = config_events c s w"
  by (simp add: config_events_def merge_script_call_def)

text \<open>The \<open>try\<close> block and the \<open>finally\<close> block of \<open>write\<close>.\<close>

lemma write_try_eq:
  "do_all [write_device_map c, stage2_format_sync c, os_sync, install en, os_sync,
           stage2_format_sync c] (s, w) = (r, (s1, w1)) \<Longrightarrow>
   r = (case install_raises en of None \<Rightarrow> Inr () | Some e \<Rightarrow> Inl e) \<and>
   s1 = s\<lparr>disks := device_map_candidates s\<rparr> \<and>
   environ w1 = environ w \<and>
   files w1 = files (snd (snd (write_device_map c (s, w)))) \<and>
   trace w1 = trace w @ device_map_events c s w
                @ [FormatSync (stage2_device s) (physical_root c), OsSync, CallInstall]
                @ (if install_raises en = None then sync_events c s else [])"
  by (cases "write_device_map c (s, w)")
     (use write_device_map_result [of c s w] write_device_map_bootloader [of c s w]
        write_device_map_environ [of c s w] write_device_map_trace [of c s w]
      in \<open>auto simp: stage2_format_sync_def os_sync_def install_def sync_events_def
            split: option.splits\<close>)

lemma write_finally_eq:
  "do_all [write_config c en, os_sync, stage2_format_sync c] (s, w) = (r, (s1, w1)) \<Longrightarrow>
   r = (if exec_rc en (merge_script_call c w) \<noteq> 0
        then Inl (BootLoaderError ''failed to write boot loader configuration'')
        else Inr ()) \<and>
   s1 = write_config_console s \<and>
   environ w1 = environ w \<and>
   files w1 = files (snd (snd (write_config c en (s, w)))) \<and>
   trace w1 = trace w @ config_events c s w
                @ (if exec_rc en (merge_script_call c w) = 0 then sync_events c s else [])"
  by (cases "write_config c en (s, w)")
     (use write_config_result [of c en s w] write_config_bootloader [of c en s w]
        write_config_environ [of c en s w] write_config_trace [of c en s w]
      in \<open>auto simp: stage2_format_sync_def os_sync_def sync_events_def
            split: if_splits\<close>)



lemma write_bootloader_unfold:
  assumes t: "do_all [write_device_map c, stage2_format_sync c, os_sync,
      install en, os_sync, stage2_format_sync c] (s, w) = (r1, (s1, w1))"
   and f: "do_all [write_config c en, os_sync, stage2_format_sync c] (s1, w1)
      = (r2, (s2, w2))"
  shows "write_bootloader c en (s, w) = (case r2 of Inl e \<Rightarrow> Inl e | Inr u \<Rightarrow> r1, (s2, w2))"
  unfolding write_bootloader_def try_finally_def t prod.case f
  by (cases r2) simp_all


lemma write_bootloader_parts:
  obtains r1 s1 w1 r2 s2 w2 where
    "do_all [write_device_map c, stage2_format_sync c, os_sync,
      install en, os_sync, stage2_format_sync c] (s, w) = (r1, (s1, w1))"
    "do_all [write_config c en, os_sync, stage2_format_sync c] (s1, w1) = (r2, (s2, w2))"
    "write_bootloader c en (s, w) = (case r2 of Inl e \<Rightarrow> Inl e | Inr u \<Rightarrow> r1, (s2, w2))"
proof -
  obtain r1 s1 w1 where t: "do_all [write_device_map c, stage2_format_sync c, os_sync,
      install en, os_sync, stage2_format_sync c] (s, w) = (r1, (s1, w1))"
    by (rule prod_cases3)
  obtain r2 s2 w2 where f: "do_all [write_config c en, os_sync, stage2_format_sync c] (s1, w1)
      = (r2, (s2, w2))"
    by (rule prod_cases3)
  from that [OF t f write_bootloader_unfold [OF t f]] show thesis .
qed

lemma write_bootloader_result:
  "fst (write_bootloader c en (s, w)) =
     (if exec_rc en (merge_script_call c w) \<noteq> 0
      then Inl (BootLoaderError ''failed to write boot loader configuration'')
      else (case install_raises en of None \<Rightarrow> Inr () | Some e \<Rightarrow> Inl e))"
proof -
  obtain r1 s1 w1 r2 s2 w2 where
    t: "do_all [write_device_map c, stage2_format_sync c, os_sync,
      install en, os_sync, stage2_format_sync c] (s, w) = (r1, (s1, w1))" and
    f: "do_all [write_config c en, os_sync, stage2_format_sync c] (s1, w1) = (r2, (s2, w2))" and
    u: "write_bootloader c en (s, w) = (case r2 of Inl e \<Rightarrow> Inl e | Inr u \<Rightarrow> r1, (s2, w2))"
    by (rule write_bootloader_parts)
  have r1: "r1 = (case install_raises en of None \<Rightarrow> Inr () | Some e \<Rightarrow> Inl e)"
    using write_try_eq [OF t] by blast
  have e: "environ w1 = environ w" using write_try_eq [OF t] by blast
  have r2: "r2 = (if exec_rc en (merge_script_call c w1) \<noteq> 0
        then Inl (BootLoaderError ''failed to write boot loader configuration'')
        else Inr ())"
    using write_finally_eq [OF f] by blast
  have m: "merge_script_call c w1 = merge_script_call c w"
    using e by (rule merge_script_call_environ)
  show ?thesis unfolding u fst_conv r2 m r1 by simp
qed


lemma write_bootloader_state:
  "fst (snd (write_bootloader c en (s, w))) =
     write_config_console (s\<lparr>disks := device_map_candidates s\<rparr>)"
proof -
  obtain r1 s1 w1 r2 s2 w2 where
    t: "do_all [write_device_map c, stage2_format_sync c, os_sync,
      install en, os_sync, stage2_format_sync c] (s, w) = (r1, (s1, w1))" and
    f: "do_all [write_config c en, os_sync, stage2_format_sync c] (s1, w1) = (r2, (s2, w2))" and
    u: "write_bootloader c en (s, w) = (case r2 of Inl e \<Rightarrow> Inl e | Inr u \<Rightarrow> r1, (s2, w2))"
    by (rule write_bootloader_parts)
  have s1: "s1 = s\<lparr>disks := device_map_candidates s\<rparr>"
    using write_try_eq [OF t] by blast
  have s2: "s2 = write_config_console s1"
    using write_finally_eq [OF f] by blast
  show ?thesis unfolding u snd_conv fst_conv s2 s1 ..
qed

lemma write_bootloader_environ:
  "environ (snd (snd (write_bootloader c en (s, w)))) = environ w"
proof -
  obtain r1 s1 w1 r2 s2 w2 where
    t: "do_all [write_device_map c, stage2_format_sync c, os_sync,
      install en, os_sync, stage2_format_sync c] (s, w) = (r1, (s1, w1))" and
    f: "do_all [write_config c en, os_sync, stage2_format_sync c] (s1, w1) = (r2, (s2, w2))" and
    u: "write_bootloader c en (s, w) = (case r2 of Inl e \<Rightarrow> Inl e | Inr u \<Rightarrow> r1, (s2, w2))"
    by (rule write_bootloader_parts)
  have e1: "environ w1 = environ w"
    using write_try_eq [OF t] by blast
  have e2: "environ w2 = environ w1"
    using write_finally_eq [OF f] by blast
  show ?thesis unfolding u snd_conv e2 e1 ..
qed

lemma write_bootloader_files:
  "files (snd (snd (write_bootloader c en (s, w)))) =
     (files (snd (snd (write_device_map c (s, w)))))
       (system_root c @ ''/boot/efi/loader/loader.conf'' \<mapsto> ''timeout 3\<newline>#console-mode keep\<newline>'',
        system_root c @ ''/etc/kernel/cmdline'' \<mapsto> cmdline_text s)"
proof -
  obtain r1 s1 w1 r2 s2 w2 where
    t: "do_all [write_device_map c, stage2_format_sync c, os_sync,
      install en, os_sync, stage2_format_sync c] (s, w) = (r1, (s1, w1))" and
    f: "do_all [write_config c en, os_sync, stage2_format_sync c] (s1, w1) = (r2, (s2, w2))" and
    u: "write_bootloader c en (s, w) = (case r2 of Inl e \<Rightarrow> Inl e | Inr u \<Rightarrow> r1, (s2, w2))"
    by (rule write_bootloader_parts)
  have s1: "s1 = s\<lparr>disks := device_map_candidates s\<rparr>"
    using write_try_eq [OF t] by blast
  have f1: "files w1 = files (snd (snd (write_device_map c (s, w))))"
    using write_try_eq [OF t] by blast
  have f2: "files w2 = files (snd (snd (write_config c en (s1, w1))))"
    using write_finally_eq [OF f] by blast
  have ct: "cmdline_text s1 = cmdline_text s"
    unfolding s1 by (rule cmdline_text_disks)
  show ?thesis unfolding u snd_conv f2 write_config_files f1 ct ..
qed

lemma write_bootloader_trace:
  "trace (snd (snd (write_bootloader c en (s, w)))) =
     trace w @ device_map_events c s w
       @ [FormatSync (stage2_device s) (physical_root c), OsSync, CallInstall]
       @ (if install_raises en = None then sync_events c s else [])
       @ config_events c s w
       @ (if exec_rc en (merge_script_call c w) = 0 then sync_events c s else [])"
proof -
  obtain r1 s1 w1 r2 s2 w2 where
    t: "do_all [write_device_map c, stage2_format_sync c, os_sync,
      install en, os_sync, stage2_format_sync c] (s, w) = (r1, (s1, w1))" and
    f: "do_all [write_config c en, os_sync, stage2_format_sync c] (s1, w1) = (r2, (s2, w2))" and
    u: "write_bootloader c en (s, w) = (case r2 of Inl e \<Rightarrow> Inl e | Inr u \<Rightarrow> r1, (s2, w2))"
    by (rule write_bootloader_parts)
  have s1: "s1 = s\<lparr>disks := device_map_candidates s\<rparr>"
    using write_try_eq [OF t] by blast
  have e1: "environ w1 = environ w"
    using write_try_eq [OF t] by blast
  have t1: "trace w1 = trace w @ device_map_events c s w
                @ [FormatSync (stage2_device s) (physical_root c), OsSync, CallInstall]
                @ (if install_raises en = None then sync_events c s else [])"
    using write_try_eq [OF t] by blast
  have t2: "trace w2 = trace w1 @ config_events c s1 w1
                @ (if exec_rc en (merge_script_call c w1) = 0 then sync_events c s1 else [])"
    using write_finally_eq [OF f] by blast
  have m: "merge_script_call c w1 = merge_script_call c w"
    using e1 by (rule merge_script_call_environ)
  have ce: "config_events c s1 w1 = config_events c s w"
    unfolding s1 config_events_disks using e1 by (rule config_events_environ)
  have se: "sync_events c s1 = sync_events c s"
    unfolding s1 by (simp add: sync_events_def)
  show ?thesis unfolding u snd_conv t2 t1 m ce se by simp
qed

section \<open>The claims\<close>

lemma map_of_filter_key:
  "map_of (filter (\<lambda>kv. fst kv \<noteq> k) xs) k = None"
  by (induction xs) auto

lemma normpath_example:
  "normpath ''/mnt/sysroot/boot/efi/loader//device.map''
     = ''/mnt/sysroot/boot/efi/loader/device.map''"
  by code_simp

text \<open>
  C8. \<open>installbootmgr\<close> runs one program, \<open>bootctl\<close>, with the arguments \<open>install\<close> and
  \<open>--esp-path=/boot/efi\<close>, under the target root, in an environment that has no
  \<open>MALLOC_PERTURB_\<close>; it raises \<open>BootLoaderError("boot loader install failed")\<close> exactly
  when the exit status is not zero, and returns normally exactly when it is zero.
\<close>

theorem installbootmgr_contract:
  "trace (snd (snd (installbootmgr c en (s, w)))) = trace w @ [Exec (bootctl_call c w)]
   \<and> command (bootctl_call c w) = ''bootctl''
   \<and> argv (bootctl_call c w) = [''install'', ''--esp-path=/boot/efi'']
   \<and> root (bootctl_call c w) = system_root c
   \<and> map_of (child_env (bootctl_call c w)) ''MALLOC_PERTURB_'' = None
   \<and> (fst (installbootmgr c en (s, w)) = Inl (BootLoaderError ''boot loader install failed''))
        = (exec_rc en (bootctl_call c w) \<noteq> 0)
   \<and> (fst (installbootmgr c en (s, w)) = Inr ()) = (exec_rc en (bootctl_call c w) = 0)"
  by (simp add: installbootmgr_def split_beta Let_def bootctl_call_def map_of_filter_key)

theorem installbootmgr_contract_witness:
  "fst (installbootmgr example_conf env_bootctl_fails (example_loader, example_world))
     = Inl (BootLoaderError ''boot loader install failed'')
   \<and> fst (installbootmgr example_conf env_all_ok (example_loader, example_world)) = Inr ()
   \<and> child_env (bootctl_call example_conf example_world) = [(''LANG'', ''C'')]"
  using installbootmgr_contract [of example_conf env_bootctl_fails example_loader example_world]
    installbootmgr_contract [of example_conf env_all_ok example_loader example_world]
  by (simp add: bootctl_call_def example_conf_def example_world_def env_bootctl_fails_def
      env_all_ok_def)

text \<open>
  C9. The calls of \<open>write_config\<close>, in order: the loader descriptor is opened, written twice
  and closed, the command-line file is opened, written and closed, and only then the merge
  script \<open>/usr/sbin/updateloaderentries.sh\<close> is run. The method raises
  \<open>BootLoaderError("failed to write boot loader configuration")\<close> exactly when the exit status
  of the script is not zero; that is the exception class of the installer failure with
  another message.
\<close>

theorem write_config_merge_script:
  "trace (snd (snd (write_config c en (s, w)))) =
     trace w @
     [Open (system_root c @ ''/boot/efi/loader/loader.conf''),
      Write (system_root c @ ''/boot/efi/loader/loader.conf'') ''timeout 3\<newline>'',
      Write (system_root c @ ''/boot/efi/loader/loader.conf'') ''#console-mode keep\<newline>'',
      Close (system_root c @ ''/boot/efi/loader/loader.conf''),
      Open (system_root c @ ''/etc/kernel/cmdline''),
      Write (system_root c @ ''/etc/kernel/cmdline'') (cmdline_text s),
      Close (system_root c @ ''/etc/kernel/cmdline''),
      Exec (merge_script_call c w)]
   \<and> command (merge_script_call c w) = ''/usr/sbin/updateloaderentries.sh''
   \<and> (fst (write_config c en (s, w))
          = Inl (BootLoaderError ''failed to write boot loader configuration''))
        = (exec_rc en (merge_script_call c w) \<noteq> 0)
   \<and> (fst (write_config c en (s, w)) = Inr ()) = (exec_rc en (merge_script_call c w) = 0)
   \<and> BootLoaderError ''failed to write boot loader configuration''
        \<noteq> BootLoaderError ''boot loader install failed''"
  by (simp add: write_config_trace write_config_result config_events_def
      merge_script_call_def)

theorem write_config_merge_script_witness:
  "fst (write_config example_conf env_script_fails (example_loader, example_world))
     = Inl (BootLoaderError ''failed to write boot loader configuration'')
   \<and> fst (write_config example_conf env_all_ok (example_loader, example_world)) = Inr ()
   \<and> trace (snd (snd (write_config example_conf env_all_ok (example_loader, example_world))))
      = [Open ''/mnt/sysroot/boot/efi/loader/loader.conf'',
         Write ''/mnt/sysroot/boot/efi/loader/loader.conf'' ''timeout 3\<newline>'',
         Write ''/mnt/sysroot/boot/efi/loader/loader.conf'' ''#console-mode keep\<newline>'',
         Close ''/mnt/sysroot/boot/efi/loader/loader.conf'',
         Open ''/mnt/sysroot/etc/kernel/cmdline'',
         Write ''/mnt/sysroot/etc/kernel/cmdline'' '' root=/dev/mapper/fedora_fedora-root'',
         Close ''/mnt/sysroot/etc/kernel/cmdline'',
         Exec \<lparr>command = ''/usr/sbin/updateloaderentries.sh'', argv = ['' ''],
               root = ''/mnt/sysroot'',
               child_env = [(''MALLOC_PERTURB_'', ''204''), (''LANG'', ''C'')]\<rparr>]"
  using write_config_merge_script [of example_conf env_script_fails example_loader example_world]
    write_config_merge_script [of example_conf env_all_ok example_loader example_world]
  by (simp add: merge_script_call_def cmdline_text_def write_config_console_def
      example_conf_def example_world_def example_loader_def env_script_fails_def env_all_ok_def)

text \<open>
  C10. Whenever \<open>write_config\<close> raises the error of the merge script, the loader descriptor
  and the command-line file already hold the new contents.
\<close>

theorem write_config_not_atomic:
  "fst (write_config c en (s, w))
     = Inl (BootLoaderError ''failed to write boot loader configuration'') \<Longrightarrow>
   files (snd (snd (write_config c en (s, w)))) (system_root c @ ''/boot/efi/loader/loader.conf'')
     = Some ''timeout 3\<newline>#console-mode keep\<newline>''
   \<and> files (snd (snd (write_config c en (s, w)))) (system_root c @ ''/etc/kernel/cmdline'')
     = Some (cmdline_text s)"
  by (simp add: write_config_files)

theorem write_config_not_atomic_witness:
  "fst (write_config example_conf env_script_fails (serial_loader, example_world))
     = Inl (BootLoaderError ''failed to write boot loader configuration'')
   \<and> files example_world ''/mnt/sysroot/boot/efi/loader/loader.conf'' = Some ''timeout 10''
   \<and> files example_world ''/mnt/sysroot/etc/kernel/cmdline'' = None
   \<and> files (snd (snd (write_config example_conf env_script_fails (serial_loader, example_world))))
        ''/mnt/sysroot/boot/efi/loader/loader.conf''
     = Some ''timeout 3\<newline>#console-mode keep\<newline>''
   \<and> files (snd (snd (write_config example_conf env_script_fails (serial_loader, example_world))))
        ''/mnt/sysroot/etc/kernel/cmdline''
     = Some ''ro quiet console=ttyS0,115200 root=/dev/mapper/fedora_fedora-root''"
proof -
  have h: "fst (write_config example_conf env_script_fails (serial_loader, example_world))
     = Inl (BootLoaderError ''failed to write boot loader configuration'')"
    by (simp add: write_config_result merge_script_call_def env_script_fails_def)
  have t: "cmdline_text serial_loader
      = ''ro quiet console=ttyS0,115200 root=/dev/mapper/fedora_fedora-root''"
    by (simp add: cmdline_text_def write_config_console_def serial_loader_def
        example_loader_def boot_args_add_def Let_def)
  show ?thesis
    using h write_config_not_atomic [OF h] t
    by (simp add: example_conf_def example_world_def)
qed

text \<open>
  C7. After every call of \<open>write_config\<close> the loader descriptor reads
  \<open>timeout 3\n#console-mode keep\n\<close>, and the command-line file reads the collected boot
  arguments joined by single spaces, then one space and the root-device argument. The
  collected arguments are those of the object after the call: the ones it had, with the
  console argument added by \<open>write_config_console\<close> when a console is set.
\<close>

theorem write_config_round_trip:
  "files (snd (snd (write_config c en (s, w)))) (system_root c @ ''/boot/efi/loader/loader.conf'')
     = Some ''timeout 3\<newline>#console-mode keep\<newline>''
   \<and> files (snd (snd (write_config c en (s, w)))) (system_root c @ ''/etc/kernel/cmdline'')
     = Some (join_str '' '' (boot_args (fst (snd (write_config c en (s, w)))))
               @ '' '' @ ''root=/dev/mapper/fedora_fedora-root'')
   \<and> boot_args (fst (snd (write_config c en (s, w))))
     = (if console s = [] then boot_args s
        else boot_args_add
               (''console='' @ console s
                  @ (if console_options s = [] then [] else '','' @ console_options s))
               (boot_args s))"
  by (simp add: write_config_files write_config_bootloader cmdline_text_def
      write_config_console_def Let_def)

theorem write_config_round_trip_witness:
  "files (snd (snd (write_config example_conf env_all_ok (serial_loader, example_world))))
        ''/mnt/sysroot/boot/efi/loader/loader.conf''
     = Some ''timeout 3\<newline>#console-mode keep\<newline>''
   \<and> files (snd (snd (write_config example_conf env_all_ok (serial_loader, example_world))))
        ''/mnt/sysroot/etc/kernel/cmdline''
     = Some ''ro quiet console=ttyS0,115200 root=/dev/mapper/fedora_fedora-root''"
  using write_config_round_trip [of example_conf env_all_ok serial_loader example_world]
  by (simp add: example_conf_def serial_loader_def example_loader_def boot_args_add_def)

text \<open>
  C6, as stated, fails: with no boot arguments and no console the command-line file is not
  the bare root-device argument; it starts with the separating space.
\<close>

theorem cmdline_empty_args_counterexample:
  "boot_args example_loader = [] \<and> console example_loader = []
   \<and> files (snd (snd (write_config example_conf env_all_ok (example_loader, example_world))))
        ''/mnt/sysroot/etc/kernel/cmdline''
     = Some '' root=/dev/mapper/fedora_fedora-root''
   \<and> files (snd (snd (write_config example_conf env_all_ok (example_loader, example_world))))
        ''/mnt/sysroot/etc/kernel/cmdline''
     \<noteq> Some ''root=/dev/mapper/fedora_fedora-root''"
  using write_config_files [of example_conf env_all_ok example_loader example_world]
  by (simp add: example_conf_def example_loader_def cmdline_text_def write_config_console_def)

text \<open>
  C6, amended. With no boot arguments collected and no console set, the command-line file
  holds one space followed by the root-device argument: the separator is written whether
  or not an argument precedes it.
\<close>

theorem cmdline_empty_args:
  "boot_args s = [] \<Longrightarrow> console s = [] \<Longrightarrow>
   files (snd (snd (write_config c en (s, w)))) (system_root c @ ''/etc/kernel/cmdline'')
     = Some ('' '' @ ''root=/dev/mapper/fedora_fedora-root'')"
  by (simp add: write_config_files cmdline_text_def write_config_console_def)

theorem cmdline_empty_args_witness:
  "boot_args example_loader = [] \<and> console example_loader = []
   \<and> files (snd (snd (write_config example_conf env_script_fails (example_loader, example_world))))
        ''/mnt/sysroot/etc/kernel/cmdline''
     = Some '' root=/dev/mapper/fedora_fedora-root''"
proof -
  have a: "boot_args example_loader = []" and b: "console example_loader = []"
    by (simp_all add: example_loader_def)
  show ?thesis
    using a b cmdline_empty_args [OF a b, of example_conf env_script_fails example_world]
    by (simp add: example_conf_def)
qed

text \<open>
  C3. If \<open>self.install()\<close> raises and the merge script of \<open>write_config\<close> then fails as
  well, \<open>write\<close> raises the error of \<open>write_config\<close>, raised inside the \<open>finally\<close> block; the
  exception of the installation does not reach the caller.
\<close>

theorem write_finally_error_wins:
  "install_raises en = Some e \<Longrightarrow> exec_rc en (merge_script_call c w) \<noteq> 0 \<Longrightarrow>
   fst (write_bootloader c en (s, w))
     = Inl (BootLoaderError ''failed to write boot loader configuration'')"
  by (simp add: write_bootloader_result)

theorem write_finally_error_wins_witness:
  "install_raises env_both_fail = Some install_error
   \<and> exec_rc env_both_fail (merge_script_call example_conf example_world) \<noteq> 0
   \<and> fst (write_bootloader example_conf env_both_fail (example_loader, example_world))
       = Inl (BootLoaderError ''failed to write boot loader configuration'')
   \<and> fst (write_bootloader example_conf env_both_fail (example_loader, example_world))
       \<noteq> Inl install_error"
proof -
  have a: "install_raises env_both_fail = Some install_error"
    by (simp add: env_both_fail_def)
  have b: "exec_rc env_both_fail (merge_script_call example_conf example_world) \<noteq> 0"
    by (simp add: env_both_fail_def)
  show ?thesis
    using a b write_finally_error_wins [OF a b, of example_loader]
    by (simp add: install_error_def)
qed

lemma ends_with_sync_append:
  "ends_with_sync d r (t @ [OsSync, FormatSync d r])"
  by (simp add: ends_with_sync_def)

lemma not_ends_with_sync_exec:
  "\<not> ends_with_sync d r (t @ [a, Exec x])"
  by (simp add: ends_with_sync_def)

lemma ends_with_sync_write:
  "ends_with_sync (stage2_device s) (physical_root c)
     (trace (snd (snd (write_bootloader c en (s, w)))))
   = (exec_rc en (merge_script_call c w) = 0)"
proof (cases "exec_rc en (merge_script_call c w) = 0")
  case True
  have e: "trace (snd (snd (write_bootloader c en (s, w)))) =
     (trace w @ device_map_events c s w
       @ [FormatSync (stage2_device s) (physical_root c), OsSync, CallInstall]
       @ (if install_raises en = None then sync_events c s else [])
       @ config_events c s w) @ [OsSync, FormatSync (stage2_device s) (physical_root c)]"
    unfolding write_bootloader_trace using True by (simp add: sync_events_def)
  show ?thesis by (simp only: e ends_with_sync_append True simp_thms)
next
  case False
  have e: "trace (snd (snd (write_bootloader c en (s, w)))) =
     (trace w @ device_map_events c s w
       @ [FormatSync (stage2_device s) (physical_root c), OsSync, CallInstall]
       @ (if install_raises en = None then sync_events c s else [])
       @ butlast (butlast (config_events c s w)))
      @ [Close (system_root c @ ''/etc/kernel/cmdline''), Exec (merge_script_call c w)]"
    unfolding write_bootloader_trace using False by (simp add: config_events_def)
  show ?thesis by (simp only: e not_ends_with_sync_exec False simp_thms)
qed

lemma example_map_path:
  "normpath (system_root example_conf @ device_map_file example_loader)
     = ''/mnt/sysroot/boot/efi/loader/device.map''"
  by (simp add: example_conf_def example_loader_def normpath_example)

lemma example_trace_both_fail:
  "trace (snd (snd (write_bootloader example_conf env_both_fail (example_loader, example_world))))
   = [Rename ''/mnt/sysroot/boot/efi/loader/device.map''
        ''/mnt/sysroot/boot/efi/loader/device.map.anacbak'',
      FormatSync md0 ''/mnt/sysimage'', OsSync, CallInstall,
      Open ''/mnt/sysroot/boot/efi/loader/loader.conf'',
      Write ''/mnt/sysroot/boot/efi/loader/loader.conf'' ''timeout 3\<newline>'',
      Write ''/mnt/sysroot/boot/efi/loader/loader.conf'' ''#console-mode keep\<newline>'',
      Close ''/mnt/sysroot/boot/efi/loader/loader.conf'',
      Open ''/mnt/sysroot/etc/kernel/cmdline'',
      Write ''/mnt/sysroot/etc/kernel/cmdline'' '' root=/dev/mapper/fedora_fedora-root'',
      Close ''/mnt/sysroot/etc/kernel/cmdline'',
      Exec (merge_script_call example_conf example_world)]"
  unfolding write_bootloader_trace device_map_events_def example_map_path
  by (simp add: config_events_def sync_events_def cmdline_text_def write_config_console_def
      merge_script_call_def example_conf_def example_loader_def example_world_def
      env_both_fail_def)

lemma example_trace_script_fails:
  "trace (snd (snd (write_bootloader example_conf env_script_fails (example_loader, example_world))))
   = [Rename ''/mnt/sysroot/boot/efi/loader/device.map''
        ''/mnt/sysroot/boot/efi/loader/device.map.anacbak'',
      FormatSync md0 ''/mnt/sysimage'', OsSync, CallInstall,
      OsSync, FormatSync md0 ''/mnt/sysimage'',
      Open ''/mnt/sysroot/boot/efi/loader/loader.conf'',
      Write ''/mnt/sysroot/boot/efi/loader/loader.conf'' ''timeout 3\<newline>'',
      Write ''/mnt/sysroot/boot/efi/loader/loader.conf'' ''#console-mode keep\<newline>'',
      Close ''/mnt/sysroot/boot/efi/loader/loader.conf'',
      Open ''/mnt/sysroot/etc/kernel/cmdline'',
      Write ''/mnt/sysroot/etc/kernel/cmdline'' '' root=/dev/mapper/fedora_fedora-root'',
      Close ''/mnt/sysroot/etc/kernel/cmdline'',
      Exec (merge_script_call example_conf example_world)]"
  unfolding write_bootloader_trace device_map_events_def example_map_path
  by (simp add: config_events_def sync_events_def cmdline_text_def write_config_console_def
      merge_script_call_def example_conf_def example_loader_def example_world_def
      env_script_fails_def)

lemma no_flush_after_failed_script:
  "exec_rc en (merge_script_call c w) \<noteq> 0 \<Longrightarrow>
   \<not> flushed_after (Exec (merge_script_call c w))
        (drop (length (trace w)) (trace (snd (snd (write_bootloader c en (s, w))))))"
  unfolding write_bootloader_trace
  by (simp add: flushed_after_def device_map_events_def config_events_def sync_events_def
      Let_def)

text \<open>
  C1, as stated, fails: when the installation raises and the merge script fails, no flush
  is issued after the call of \<open>self.install()\<close>, the trace does not end with the final
  flushes, and the exception that leaves \<open>write\<close> is not the one of the installation.
\<close>

theorem write_final_sync_counterexample:
  "install_raises env_both_fail = Some install_error
   \<and> \<not> ends_with_sync (stage2_device example_loader) (physical_root example_conf)
        (trace (snd (snd (write_bootloader example_conf env_both_fail
                            (example_loader, example_world)))))
   \<and> \<not> flushed_after CallInstall
        (trace (snd (snd (write_bootloader example_conf env_both_fail
                            (example_loader, example_world)))))
   \<and> fst (write_bootloader example_conf env_both_fail (example_loader, example_world))
       \<noteq> Inl install_error"
  unfolding example_trace_both_fail
  by (simp add: write_bootloader_result env_both_fail_def install_error_def
      ends_with_sync_def flushed_after_def)

text \<open>
  C1, amended. On every execution of \<open>write\<close>, however the \<open>try\<close> block ended,
  \<open>write_config\<close> runs: both files hold the new contents and the merge script was invoked
  during the call. The final flushes (\<open>os.sync()\<close>, then the flush of the stage2 device)
  end the trace exactly when \<open>write_config\<close> returned normally; in that case \<open>write\<close> raises
  the exception of \<open>self.install()\<close> if there was one and returns normally otherwise. When
  \<open>write_config\<close> raises, \<open>write\<close> raises that error and issues no flush after the merge
  script.
\<close>

theorem write_runs_write_config:
  "files (snd (snd (write_bootloader c en (s, w))))
       (system_root c @ ''/boot/efi/loader/loader.conf'')
     = Some ''timeout 3\<newline>#console-mode keep\<newline>''
   \<and> files (snd (snd (write_bootloader c en (s, w)))) (system_root c @ ''/etc/kernel/cmdline'')
     = Some (cmdline_text s)
   \<and> Exec (merge_script_call c w)
       \<in> set (drop (length (trace w)) (trace (snd (snd (write_bootloader c en (s, w))))))
   \<and> ends_with_sync (stage2_device s) (physical_root c)
        (trace (snd (snd (write_bootloader c en (s, w)))))
       = (exec_rc en (merge_script_call c w) = 0)
   \<and> (exec_rc en (merge_script_call c w) = 0 \<longrightarrow> install_raises en = Some e \<longrightarrow>
        fst (write_bootloader c en (s, w)) = Inl e)
   \<and> (exec_rc en (merge_script_call c w) = 0 \<longrightarrow> install_raises en = None \<longrightarrow>
        fst (write_bootloader c en (s, w)) = Inr ())
   \<and> (exec_rc en (merge_script_call c w) \<noteq> 0 \<longrightarrow>
        fst (write_bootloader c en (s, w))
          = Inl (BootLoaderError ''failed to write boot loader configuration'')
        \<and> \<not> flushed_after (Exec (merge_script_call c w))
             (drop (length (trace w)) (trace (snd (snd (write_bootloader c en (s, w)))))))"
proof -
  have ex: "Exec (merge_script_call c w)
       \<in> set (drop (length (trace w)) (trace (snd (snd (write_bootloader c en (s, w))))))"
    unfolding write_bootloader_trace by (simp add: config_events_def)
  show ?thesis
    using ex no_flush_after_failed_script [of en c w s]
    by (simp add: write_bootloader_files write_bootloader_result ends_with_sync_write)
qed

theorem write_runs_write_config_witness:
  "exec_rc env_install_fails (merge_script_call example_conf example_world) = 0
   \<and> install_raises env_install_fails = Some install_error
   \<and> fst (write_bootloader example_conf env_install_fails (example_loader, example_world))
       = Inl install_error
   \<and> ends_with_sync md0 ''/mnt/sysimage''
        (trace (snd (snd (write_bootloader example_conf env_install_fails
                            (example_loader, example_world)))))
   \<and> files (snd (snd (write_bootloader example_conf env_install_fails
                         (example_loader, example_world))))
        ''/mnt/sysroot/boot/efi/loader/loader.conf''
       = Some ''timeout 3\<newline>#console-mode keep\<newline>''
   \<and> files (snd (snd (write_bootloader example_conf env_install_fails
                         (example_loader, example_world))))
        ''/mnt/sysroot/etc/kernel/cmdline''
       = Some '' root=/dev/mapper/fedora_fedora-root''
   \<and> exec_rc env_all_ok (merge_script_call example_conf example_world) = 0
   \<and> install_raises env_all_ok = None
   \<and> fst (write_bootloader example_conf env_all_ok (example_loader, example_world)) = Inr ()
   \<and> exec_rc env_script_fails (merge_script_call example_conf example_world) \<noteq> 0
   \<and> fst (write_bootloader example_conf env_script_fails (example_loader, example_world))
       = Inl (BootLoaderError ''failed to write boot loader configuration'')
   \<and> \<not> ends_with_sync md0 ''/mnt/sysimage''
        (trace (snd (snd (write_bootloader example_conf env_script_fails
                            (example_loader, example_world)))))
   \<and> \<not> flushed_after (Exec (merge_script_call example_conf example_world))
        (drop (length (trace example_world))
           (trace (snd (snd (write_bootloader example_conf env_script_fails
                               (example_loader, example_world))))))"
  using write_runs_write_config [of example_conf env_install_fails example_loader
      example_world install_error]
    write_runs_write_config [of example_conf env_all_ok example_loader example_world
      install_error]
    write_runs_write_config [of example_conf env_script_fails example_loader example_world
      install_error]
  by (simp add: env_install_fails_def env_all_ok_def env_script_fails_def example_conf_def
      example_loader_def cmdline_text_def write_config_console_def merge_script_call_def)

text \<open>
  C4, as stated, fails: when the merge script fails, no flush at all is issued after the
  configuration was written.
\<close>

theorem write_sync_bracket_counterexample:
  "\<not> flushed_after (Exec (merge_script_call example_conf example_world))
        (trace (snd (snd (write_bootloader example_conf env_script_fails
                            (example_loader, example_world)))))"
  unfolding example_trace_script_fails
  by (simp add: flushed_after_def merge_script_call_def)

text \<open>
  C4, amended. The calls of \<open>write\<close>, in order: the rename of an existing device map; the
  flush of the stage2 device and \<open>os.sync()\<close>; \<open>self.install()\<close>; only if that returned
  normally, \<open>os.sync()\<close> and the flush of the stage2 device; the calls of \<open>write_config\<close>;
  only if that returned normally, \<open>os.sync()\<close> and the flush of the stage2 device.
\<close>

theorem write_sync_order:
  "trace (snd (snd (write_bootloader c en (s, w)))) =
     trace w @ device_map_events c s w
       @ [FormatSync (stage2_device s) (physical_root c), OsSync, CallInstall]
       @ (if install_raises en = None
          then [OsSync, FormatSync (stage2_device s) (physical_root c)] else [])
       @ config_events c s w
       @ (if exec_rc en (merge_script_call c w) = 0
          then [OsSync, FormatSync (stage2_device s) (physical_root c)] else [])"
  unfolding write_bootloader_trace sync_events_def ..

theorem write_sync_order_witness:
  "trace (snd (snd (write_bootloader example_conf env_all_ok (example_loader, example_world))))
   = [Rename ''/mnt/sysroot/boot/efi/loader/device.map''
        ''/mnt/sysroot/boot/efi/loader/device.map.anacbak'',
      FormatSync md0 ''/mnt/sysimage'', OsSync, CallInstall,
      OsSync, FormatSync md0 ''/mnt/sysimage'',
      Open ''/mnt/sysroot/boot/efi/loader/loader.conf'',
      Write ''/mnt/sysroot/boot/efi/loader/loader.conf'' ''timeout 3\<newline>'',
      Write ''/mnt/sysroot/boot/efi/loader/loader.conf'' ''#console-mode keep\<newline>'',
      Close ''/mnt/sysroot/boot/efi/loader/loader.conf'',
      Open ''/mnt/sysroot/etc/kernel/cmdline'',
      Write ''/mnt/sysroot/etc/kernel/cmdline'' '' root=/dev/mapper/fedora_fedora-root'',
      Close ''/mnt/sysroot/etc/kernel/cmdline'',
      Exec (merge_script_call example_conf example_world),
      OsSync, FormatSync md0 ''/mnt/sysimage'']
   \<and> trace (snd (snd (write_bootloader example_conf env_install_fails
                         (example_loader, example_world))))
   = [Rename ''/mnt/sysroot/boot/efi/loader/device.map''
        ''/mnt/sysroot/boot/efi/loader/device.map.anacbak'',
      FormatSync md0 ''/mnt/sysimage'', OsSync, CallInstall,
      Open ''/mnt/sysroot/boot/efi/loader/loader.conf'',
      Write ''/mnt/sysroot/boot/efi/loader/loader.conf'' ''timeout 3\<newline>'',
      Write ''/mnt/sysroot/boot/efi/loader/loader.conf'' ''#console-mode keep\<newline>'',
      Close ''/mnt/sysroot/boot/efi/loader/loader.conf'',
      Open ''/mnt/sysroot/etc/kernel/cmdline'',
      Write ''/mnt/sysroot/etc/kernel/cmdline'' '' root=/dev/mapper/fedora_fedora-root'',
      Close ''/mnt/sysroot/etc/kernel/cmdline'',
      Exec (merge_script_call example_conf example_world),
      OsSync, FormatSync md0 ''/mnt/sysimage'']"
  using write_sync_order [of example_conf env_all_ok example_loader example_world]
    write_sync_order [of example_conf env_install_fails example_loader example_world]
  unfolding device_map_events_def example_map_path
  by (simp add: config_events_def cmdline_text_def write_config_console_def
      merge_script_call_def example_conf_def example_loader_def example_world_def
      env_all_ok_def env_install_fails_def)

text \<open>
  C2, on the code: stage1 is the disk \<open>sda\<close>, stage2 is backed by \<open>sda\<close> and \<open>sdb\<close>, and
  \<open>sdb\<close> is neither stage1 nor among the disks of the boot loader; \<open>install_targets\<close> is the
  primary pair alone, with no target for \<open>sdb\<close>.
\<close>

theorem install_targets_no_redundancy:
  "is_disk (stage1_device example_loader)
   \<and> device_disks (stage2_device example_loader) = [sda, sdb]
   \<and> disks example_loader = [sda]
   \<and> sdb \<noteq> stage1_device example_loader
   \<and> install_targets example_loader = [(sda, md0)]"
  by (simp add: install_targets_def example_loader_def sda_def sdb_def md0_def)

text \<open>
  C5, on the code: a device map exists and two disks remain after filtering; after
  \<open>write_device_map\<close> the old content is in the \<open>.anacbak\<close> file and the path of the device
  map holds no file.
\<close>

theorem write_device_map_writes_no_map:
  "files example_world ''/mnt/sysroot/boot/efi/loader/device.map'' = Some ''(hd0) /dev/sda''
   \<and> filter is_disk (device_map_candidates example_loader) = [sda, sdb]
   \<and> fst (write_device_map example_conf (example_loader, example_world)) = Inr ()
   \<and> files (snd (snd (write_device_map example_conf (example_loader, example_world))))
        ''/mnt/sysroot/boot/efi/loader/device.map.anacbak'' = Some ''(hd0) /dev/sda''
   \<and> files (snd (snd (write_device_map example_conf (example_loader, example_world))))
        ''/mnt/sysroot/boot/efi/loader/device.map'' = None"
  unfolding write_device_map_files write_device_map_result example_map_path Let_def
  by (simp add: example_world_def device_map_candidates_def example_loader_def
      sda_def sdb_def md0_def)

text \<open>The general facts behind the two evaluations above, for every boot loader and world.\<close>

lemma install_targets_singleton:
  "install_targets s = [(stage1_device s, stage2_device s)]"
  by (simp add: install_targets_def)

lemma write_device_map_moves_map:
  assumes "files w (normpath (system_root c @ device_map_file s)) = Some old"
  shows "files (snd (snd (write_device_map c (s, w))))
           (normpath (system_root c @ device_map_file s)) = None"
    and "files (snd (snd (write_device_map c (s, w))))
           (normpath (system_root c @ device_map_file s) @ ''.anacbak'') = Some old"
  using assms by (simp_all add: write_device_map_files Let_def)

end
